theory Spec2Isabelle
  imports Complex_Main
begin

section \<open>Values shared by the services\<close>

text \<open>
  The services compute with Python's \<^verbatim>\<open>decimal.Decimal\<close>. A finite decimal is a rational
  number, and the model computes with the exact value: \<open>+\<close>, \<open>-\<close>, \<open>*\<close>, \<open>/\<close>, \<open>abs\<close> and the
  comparisons are those of \<^typ>\<open>rat\<close>. The special values of the library (NaN, the
  infinities) and the rounding of its arithmetic context to 28 significant digits are
  outside the model: the model is the code on finite amounts whose intermediate results
  fit that precision.
\<close>

type_synonym decimal = rat

text \<open>
  \<^verbatim>\<open>x.quantize(Decimal("0.01"), rounding=ROUND_HALF_UP)\<close>: the multiple of 0.01 nearest
  to \<open>x\<close>; a value half-way between two multiples goes away from zero.
\<close>

definition quantize_half_up :: "decimal \<Rightarrow> decimal" where
  "quantize_half_up x =
     (if x < 0 then - (of_int \<lfloor>- x * 100 + 1 / 2\<rfloor> / 100)
      else of_int \<lfloor>x * 100 + 1 / 2\<rfloor> / 100)"

text \<open>The exceptions the modelled code raises or catches.\<close>

datatype py_error =
    AttributeError
  | IndexError
  | DivisionByZero
  | InvalidOperation
  | ValueError
  | JSONDecodeError
  | ValidationError
  | IntegrityError
  | RequestError
  | ParasutAPIError
  | ParasutRateLimitError
  | HTTPException nat

section \<open>kdv\_calculator.py\<close>

text \<open>
  The discrepancies that \<^verbatim>\<open>validate\<close> joins into its error message, each with the amounts
  the message prints, and the messages of \<^verbatim>\<open>KDVResult.error_message\<close>.
\<close>

datatype mismatch =
    Total_mismatch decimal decimal decimal decimal decimal
  | Kdv_mismatch decimal decimal decimal
  | Expected_total_mismatch decimal decimal decimal

datatype message =
    Subtotal_negative
  | Amounts_negative
  | Total_negative
  | Mismatches "mismatch list"
  | Calculation_error py_error
  | Validation_error py_error

text \<open>
  The fields of the result carry the prefix \<open>res_\<close>, and a variable \<^verbatim>\<open>total\<close> of the
  source is \<open>total'\<close>.
\<close>

record KDVResult =
  res_is_valid :: bool
  res_subtotal :: decimal
  res_kdv_amount :: decimal
  res_total :: decimal
  res_kdv_rate :: decimal
  res_suggested_values :: "(string \<times> decimal) list option"
  res_error_message :: "message option"

text \<open>\<^verbatim>\<open>KDV_RATES\<close>: a dict, in the order of its keys; the categories are transliterated.\<close>

definition KDV_RATES :: "(decimal \<times> string list) list" where
  "KDV_RATES =
     [(1, [''Gazete, dergi, kitap ve benzeri yayinlar'', ''Egitim ve ogretim hizmetleri'']),
      (10, [''Konut kiralari'', ''Gida maddeleri (temel)'', ''Ilac ve medikal malzemeler'',
            ''Kitap, gazete, dergi'', ''Konut teslimleri'']),
      (20, [''Genel mal ve hizmetler'', ''Elektronik esya'', ''Giyim'', ''Mobilya'',
            ''Danismanlik hizmetleri'', ''Yazilim hizmetleri''])]"



definition get_categories_for_rate :: "decimal \<Rightarrow> string list" where
  "get_categories_for_rate rate = (case map_of KDV_RATES rate of None \<Rightarrow> [] | Some cs \<Rightarrow> cs)"

text \<open>
  \<^verbatim>\<open>calculate\<close>. Nothing in its \<^verbatim>\<open>try\<close> block raises on finite decimals, so the
  \<^verbatim>\<open>except\<close> branch is no branch of the model; the warning logged for a rate outside
  the schedule does not change the result.
\<close>

definition calculate :: "decimal \<Rightarrow> decimal \<Rightarrow> KDVResult" where
  "calculate subtotal rate =
     (if subtotal < 0 then
        \<lparr>res_is_valid = False, res_subtotal = subtotal, res_kdv_amount = 0,
         res_total = subtotal, res_kdv_rate = rate, res_suggested_values = None,
         res_error_message = Some Subtotal_negative\<rparr>
      else
        let kdv_amount = quantize_half_up (subtotal * rate / 100);
            total' = subtotal + kdv_amount
        in \<lparr>res_is_valid = True, res_subtotal = subtotal, res_kdv_amount = kdv_amount,
            res_total = total', res_kdv_rate = rate, res_suggested_values = None,
            res_error_message = None\<rparr>)"







section \<open>ai\_extraction\_service.py\<close>

text \<open>
  The two pydantic models, with the prefixes \<open>item_\<close> and \<open>data_\<close> on their fields. A
  date is a triple of year, month and day.
\<close>

record InvoiceLineItem =
  item_description :: string
  item_quantity :: decimal
  item_unit_price :: decimal
  item_kdv_rate :: decimal
  item_total :: decimal

record ExtractedInvoiceData =
  data_invoice_number :: "string option"
  data_invoice_date :: "(nat \<times> nat \<times> nat) option"
  data_supplier_name :: "string option"
  data_supplier_tax_number :: "string option"
  data_supplier_address :: "string option"
  data_customer_name :: "string option"
  data_customer_tax_number :: "string option"
  data_customer_address :: "string option"
  data_currency :: string
  data_subtotal :: decimal
  data_total_kdv :: decimal
  data_total_amount :: decimal
  data_line_items :: "InvoiceLineItem list"
  data_payment_terms :: "string option"
  data_notes :: "string option"

text \<open>The field constraints (\<^verbatim>\<open>ge=0\<close>, \<^verbatim>\<open>le=100\<close>) that the constructors check.\<close>

definition line_item_valid :: "InvoiceLineItem \<Rightarrow> bool" where
  "line_item_valid item \<longleftrightarrow>
     0 \<le> item_quantity item \<and> 0 \<le> item_unit_price item \<and>
     0 \<le> item_kdv_rate item \<and> item_kdv_rate item \<le> 100 \<and> 0 \<le> item_total item"

definition extracted_data_valid :: "ExtractedInvoiceData \<Rightarrow> bool" where
  "extracted_data_valid data \<longleftrightarrow>
     0 \<le> data_subtotal data \<and> 0 \<le> data_total_kdv data \<and> 0 \<le> data_total_amount data \<and>
     list_all line_item_valid (data_line_items data)"

text \<open>
  \<^verbatim>\<open>self._kdv_calculator.calculate_kdv(line_subtotal, item.kdv_rate)\<close>. The receiver is a
  \<^verbatim>\<open>KDVCalculator\<close>. That class defines \<^verbatim>\<open>KDV_RATES\<close>, \<^verbatim>\<open>TOLERANCE\<close>,
  \<^verbatim>\<open>get_valid_rates\<close>, \<^verbatim>\<open>get_categories_for_rate\<close>, \<^verbatim>\<open>calculate\<close>, \<^verbatim>\<open>validate\<close>,
  \<^verbatim>\<open>_find_closest_valid_rate\<close> and \<^verbatim>\<open>calculate_from_total\<close>, and nothing else; it has no
  base class and no \<^verbatim>\<open>__getattr__\<close>. It defines no \<^verbatim>\<open>calculate_kdv\<close>, so the lookup of
  that attribute raises AttributeError before the arguments are used, whatever they are.
\<close>

definition calculate_kdv :: "decimal \<Rightarrow> decimal \<Rightarrow> py_error + decimal" where
  "calculate_kdv line_subtotal rate = Inl AttributeError"

text \<open>
  The body of the \<^verbatim>\<open>try\<close> in the loop of \<^verbatim>\<open>_validate_and_recalculate\<close>: the item as the
  body leaves it, and the two amounts it adds to the running sums. An exception leaves
  the body at the call of \<^verbatim>\<open>calculate_kdv\<close>, before the item is touched.
\<close>

definition recalculate_line ::
  "InvoiceLineItem \<Rightarrow> py_error + InvoiceLineItem \<times> decimal \<times> decimal" where
  "recalculate_line item =
     (let line_subtotal = item_quantity item * item_unit_price item
      in case calculate_kdv line_subtotal (item_kdv_rate item) of
           Inl e \<Rightarrow> Inl e
         | Inr line_kdv \<Rightarrow>
             Inr (if \<bar>item_total item - line_subtotal\<bar> > 1 / 100
                  then item\<lparr>item_total := line_subtotal\<rparr> else item,
                  line_subtotal, line_kdv))"

text \<open>
  The loop over \<^verbatim>\<open>data.line_items\<close>: the items as the loop leaves them,
  \<^verbatim>\<open>calculated_subtotal\<close> and \<^verbatim>\<open>calculated_total_kdv\<close>. The \<^verbatim>\<open>except\<close> clause logs the
  error and goes on to the next item.
\<close>

fun line_loop ::
  "InvoiceLineItem list \<Rightarrow> decimal \<Rightarrow> decimal \<Rightarrow> InvoiceLineItem list \<times> decimal \<times> decimal" where
  "line_loop [] calculated_subtotal calculated_total_kdv =
     ([], calculated_subtotal, calculated_total_kdv)"
| "line_loop (item # rest) calculated_subtotal calculated_total_kdv =
     (case recalculate_line item of
        Inl e \<Rightarrow>
          (case line_loop rest calculated_subtotal calculated_total_kdv of
             (items, s, k) \<Rightarrow> (item # items, s, k))
      | Inr (item', line_subtotal, line_kdv) \<Rightarrow>
          (case line_loop rest (calculated_subtotal + line_subtotal)
                  (calculated_total_kdv + line_kdv) of
             (items, s, k) \<Rightarrow> (item' # items, s, k)))"

definition validate_and_recalculate :: "ExtractedInvoiceData \<Rightarrow> ExtractedInvoiceData" where
  "validate_and_recalculate data =
     (if data_line_items data = [] then data
      else
        case line_loop (data_line_items data) 0 0 of
          (items, calculated_subtotal, calculated_total_kdv) \<Rightarrow>
            let calculated_total = calculated_subtotal + calculated_total_kdv;
                data1 = data\<lparr>data_line_items := items\<rparr>;
                data2 = (if \<bar>data_subtotal data1 - calculated_subtotal\<bar> > 1
                         then data1\<lparr>data_subtotal := calculated_subtotal\<rparr> else data1);
                data3 = (if \<bar>data_total_kdv data2 - calculated_total_kdv\<bar> > 1
                         then data2\<lparr>data_total_kdv := calculated_total_kdv\<rparr> else data2);
                data4 = (if \<bar>data_total_amount data3 - calculated_total\<bar> > 1
                         then data3\<lparr>data_total_amount := calculated_total\<rparr> else data3)
            in data4)"

text \<open>
  A Python string is a list of code points. \<^verbatim>\<open>str.strip()\<close> removes the characters that
  \<^verbatim>\<open>str.isspace\<close> accepts from both ends.
\<close>

definition py_isspace :: "nat \<Rightarrow> bool" where
  "py_isspace c \<longleftrightarrow>
     (9 \<le> c \<and> c \<le> 13) \<or> (28 \<le> c \<and> c \<le> 32) \<or> c = 133 \<or> c = 160 \<or> c = 5760 \<or>
     (8192 \<le> c \<and> c \<le> 8202) \<or> c = 8232 \<or> c = 8233 \<or> c = 8239 \<or> c = 8287 \<or> c = 12288"

definition strip :: "nat list \<Rightarrow> nat list" where
  "strip s = dropWhile py_isspace (rev (dropWhile py_isspace (rev s)))"

text \<open>
  \<^verbatim>\<open>extract_invoice_data\<close> returns its result together with the trace of what it did: the
  two prompts it built, each evaluation of the language-model call and each
  \<^verbatim>\<open>asyncio.sleep\<close>. The language model and the parser are parameters: \<open>llm attempt\<close> is
  the exception or the message content (\<^verbatim>\<open>None\<close> or a string) of the call in that attempt,
  and \<open>parse\<close> is \<^verbatim>\<open>json.loads\<close> followed by the constructor of
  \<^verbatim>\<open>ExtractedInvoiceData\<close>. The temperature of an attempt is a float and is left out of
  the trace.
\<close>

datatype event =
    System_prompt_built
  | User_prompt_built "nat list"
  | Model_called nat
  | Slept

fun attempts ::
  "(nat \<Rightarrow> py_error + string option) \<Rightarrow> (string \<Rightarrow> py_error + ExtractedInvoiceData) \<Rightarrow>
   int \<Rightarrow> nat list \<Rightarrow> event list \<times> (py_error + ExtractedInvoiceData)" where
  "attempts llm parse max_retries [] = ([], Inl ValueError)"
| "attempts llm parse max_retries (attempt # rest) =
     (case (case llm attempt of
              Inl e \<Rightarrow> Inl e
            | Inr content \<Rightarrow>
                (case content of
                   None \<Rightarrow> Inl ValueError
                 | Some c \<Rightarrow> if c = [] then Inl ValueError else parse c)) of
        Inr extracted_data \<Rightarrow>
          ([Model_called attempt], Inr (validate_and_recalculate extracted_data))
      | Inl e \<Rightarrow>
          if int attempt = max_retries then ([Model_called attempt], Inl ValueError)
          else (case attempts llm parse max_retries rest of
                  (events, r) \<Rightarrow> (Model_called attempt # Slept # events, r)))"

definition extract_invoice_data ::
  "(nat \<Rightarrow> py_error + string option) \<Rightarrow> (string \<Rightarrow> py_error + ExtractedInvoiceData) \<Rightarrow>
   nat list \<Rightarrow> int \<Rightarrow> event list \<times> (py_error + ExtractedInvoiceData)" where
  "extract_invoice_data llm parse ocr_text max_retries =
     (if ocr_text = [] \<or> strip ocr_text = [] then ([], Inl ValueError)
      else
        case attempts llm parse max_retries [0..<nat (max_retries + 1)] of
          (events, r) \<Rightarrow> (System_prompt_built # User_prompt_built ocr_text # events, r))"

section \<open>models/invoice.py\<close>

text \<open>
  The JSON values of the \<^verbatim>\<open>extracted_data\<close> column and of the ledger's responses. A dict
  is an association list with distinct keys in insertion order; \<^verbatim>\<open>None\<close> is \<open>JNull\<close>.
\<close>

datatype json =
    JNull
  | JBool bool
  | JNum decimal
  | JStr string
  | JList "json list"
  | JDict "(string \<times> json) list"


text \<open>\<^verbatim>\<open>d.get(key)\<close>, \<^verbatim>\<open>d[key] = v\<close> and \<^verbatim>\<open>d.update(e)\<close>.\<close>

definition dict_get :: "(string \<times> json) list \<Rightarrow> string \<Rightarrow> json" where
  "dict_get d key = (case map_of d key of None \<Rightarrow> JNull | Some v \<Rightarrow> v)"



datatype InvoiceStatus = UPLOADED | PROCESSING | COMPLETED | FAILED | EXPORTED

fun status_value :: "InvoiceStatus \<Rightarrow> string" where
  "status_value UPLOADED = ''uploaded''"
| "status_value PROCESSING = ''processing''"
| "status_value COMPLETED = ''completed''"
| "status_value FAILED = ''failed''"
| "status_value EXPORTED = ''exported''"

text \<open>
  The row of the table \<^verbatim>\<open>invoices\<close>, with the prefix \<open>inv_\<close>: the status is a string
  column, a time is a number, and the two float columns are left out.
  \<open>inv_is_manually_corrected\<close> is the attribute that \<^verbatim>\<open>update_invoice\<close> sets on the object.
\<close>

record Invoice =
  inv_id :: nat
  inv_user_id :: nat
  inv_original_filename :: string
  inv_file_path :: string
  inv_file_size :: nat
  inv_mime_type :: string
  inv_status :: string
  inv_ocr_text :: "string option"
  inv_extracted_data :: "(string \<times> json) list option"
  inv_error_message :: "string option"
  inv_exported_to_parasut :: bool
  inv_parasut_invoice_id :: json
  inv_exported_at :: "nat option"
  inv_created_at :: nat
  inv_updated_at :: nat
  inv_is_manually_corrected :: bool

text \<open>\<^verbatim>\<open>not invoice.extracted_data\<close>: the column is NULL or an empty dict.\<close>

definition no_extracted_data :: "Invoice \<Rightarrow> bool" where
  "no_extracted_data invoice \<longleftrightarrow>
     (case inv_extracted_data invoice of None \<Rightarrow> True | Some d \<Rightarrow> d = [])"


section \<open>parasut\_integration.py\<close>

text \<open>
  \<^verbatim>\<open>x.get(key, default)\<close> on a value of the response: a value that is no dict has no
  \<^verbatim>\<open>get\<close>.
\<close>

definition json_get :: "json \<Rightarrow> string \<Rightarrow> json \<Rightarrow> py_error + json" where
  "json_get x key dflt =
     (case x of
        JDict d \<Rightarrow> Inr (case map_of d key of None \<Rightarrow> dflt | Some v \<Rightarrow> v)
      | _ \<Rightarrow> Inl AttributeError)"

definition is_ParasutAPIError :: "py_error \<Rightarrow> bool" where
  "is_ParasutAPIError e \<longleftrightarrow> e = ParasutAPIError \<or> e = ParasutRateLimitError"

text \<open>
  \<^verbatim>\<open>export_invoice\<close>. The parameter \<open>request\<close> is what the first two statements of its
  \<^verbatim>\<open>try\<close> block do with the ledger: the exception that the conversion or \<^verbatim>\<open>_make_request\<close>
  raises after its retries, or the body of the response that \<^verbatim>\<open>_make_request\<close> returns. The
  HTTP client, the token and the retries behind \<^verbatim>\<open>_make_request\<close> are not modelled.
\<close>

definition export_invoice :: "py_error + json \<Rightarrow> Invoice \<Rightarrow> py_error + (string \<times> json) list" where
  "export_invoice request invoice =
     (if no_extracted_data invoice then Inl ParasutAPIError
      else
        case (case request of
                Inl e \<Rightarrow> Inl e
              | Inr result \<Rightarrow>
                  (case json_get result ''data'' (JDict []) of
                     Inl e \<Rightarrow> Inl e
                   | Inr data \<Rightarrow>
                       (case json_get data ''id'' JNull of
                          Inl e \<Rightarrow> Inl e
                        | Inr parasut_invoice_id \<Rightarrow>
                            Inr [(''success'', JBool True),
                                 (''parasut_invoice_id'', parasut_invoice_id),
                                 (''message'', JStr ''Invoice successfully exported to Parasut''),
                                 (''data'', result)]))) of
          Inl e \<Rightarrow> if is_ParasutAPIError e then Inl e else Inl ParasutAPIError
        | Inr r \<Rightarrow> Inr r)"

section \<open>api/v1/invoices.py\<close>

text \<open>
  A handler gets the row that its query finds (\<open>None\<close>: no invoice of this user has the
  id) and the time \<^verbatim>\<open>datetime.utcnow()\<close>; it returns its response and the row as the
  database holds it afterwards. \<^verbatim>\<open>db.commit()\<close> is taken to store the object as the
  handler leaves it (the change tracking of the object-relational mapper is not
  modelled), and a handler that raises stores nothing.
\<close>

text \<open>
  \<^verbatim>\<open>export_to_parasut\<close>. The source ends inside the handler's outer \<^verbatim>\<open>except\<close> clauses;
  \<^verbatim>\<open>export_invoice\<close> raises a \<^verbatim>\<open>ParasutAPIError\<close> and nothing else, and for any other
  exception the model answers 500 as the sibling handlers do.
\<close>

definition export_to_parasut ::
  "py_error + json \<Rightarrow> nat \<Rightarrow> Invoice option \<Rightarrow>
   (py_error + (string \<times> json) list) \<times> Invoice option" where
  "export_to_parasut request now found =
     (case found of
        None \<Rightarrow> (Inl (HTTPException 404), None)
      | Some invoice \<Rightarrow>
          if inv_status invoice \<noteq> status_value COMPLETED then
            (Inl (HTTPException 400), Some invoice)
          else if inv_status invoice = status_value EXPORTED then
            (Inl (HTTPException 400), Some invoice)
          else if no_extracted_data invoice then
            (Inl (HTTPException 400), Some invoice)
          else
            case export_invoice request invoice of
              Inl e \<Rightarrow>
                if is_ParasutAPIError e then (Inl (HTTPException 502), Some invoice)
                else (Inl (HTTPException 500), Some invoice)
            | Inr result \<Rightarrow>
                let invoice' = invoice
                      \<lparr>inv_status := status_value EXPORTED,
                       inv_parasut_invoice_id := dict_get result ''parasut_id'',
                       inv_exported_at := Some now,
                       inv_updated_at := now\<rparr>
                in (Inr [(''success'', JBool True),
                         (''message'', JStr ''Fatura basariyla Parasut'e aktarildi''),
                         (''parasut_id'', dict_get result ''parasut_id''),
                         (''parasut_url'', dict_get result ''parasut_url''),
                         (''exported_at'', JNum (of_nat now))],
                    Some invoice'))"




section \<open>The properties in the words of the specification\<close>

text \<open>
  "Rounded half-up to 2 decimal places": \<open>y\<close> is a multiple of 0.01, no multiple of 0.01
  is nearer to \<open>x\<close>, and of two nearest multiples \<open>y\<close> is the upper one.
\<close>

definition is_rounded_half_up :: "decimal \<Rightarrow> decimal \<Rightarrow> bool" where
  "is_rounded_half_up x y \<longleftrightarrow>
     of_int \<lfloor>y * 100\<rfloor> = y * 100 \<and> \<bar>y - x\<bar> \<le> 1 / 200 \<and> (\<bar>y - x\<bar> = 1 / 200 \<longrightarrow> x < y)"

text \<open>
  The amount of a line, \<open>quantity * unit_price\<close>, and the tax of a line, computed from
  its total and its rate by the forward calculation.
\<close>

definition line_amount :: "InvoiceLineItem \<Rightarrow> decimal" where
  "line_amount item = item_quantity item * item_unit_price item"

definition line_tax :: "InvoiceLineItem \<Rightarrow> decimal" where
  "line_tax item = res_kdv_amount (calculate (item_total item) (item_kdv_rate item))"



section \<open>The inputs of the examples\<close>

text \<open>
  An extraction result whose only line states the total 25 for 2 units at 10, an
  extraction result whose amounts all agree, and one without line items.
\<close>

definition invoice_with_wrong_line_total :: ExtractedInvoiceData where
  "invoice_with_wrong_line_total =
     \<lparr>data_invoice_number = Some ''FTR2024001234'', data_invoice_date = Some (2024, 1, 15),
      data_supplier_name = None, data_supplier_tax_number = None,
      data_supplier_address = None, data_customer_name = None,
      data_customer_tax_number = None, data_customer_address = None,
      data_currency = ''TRY'', data_subtotal = 25, data_total_kdv = 5,
      data_total_amount = 30,
      data_line_items =
        [\<lparr>item_description = ''Yazilim Lisansi'', item_quantity = 2, item_unit_price = 10,
          item_kdv_rate = 20, item_total = 25\<rparr>],
      data_payment_terms = None, data_notes = None\<rparr>"

definition consistent_invoice :: ExtractedInvoiceData where
  "consistent_invoice =
     \<lparr>data_invoice_number = Some ''FTR2024001234'', data_invoice_date = Some (2024, 1, 15),
      data_supplier_name = None, data_supplier_tax_number = None,
      data_supplier_address = None, data_customer_name = None,
      data_customer_tax_number = None, data_customer_address = None,
      data_currency = ''TRY'', data_subtotal = 10000, data_total_kdv = 2000,
      data_total_amount = 12000,
      data_line_items =
        [\<lparr>item_description = ''Yazilim Lisansi'', item_quantity = 1,
          item_unit_price = 10000, item_kdv_rate = 20, item_total = 10000\<rparr>],
      data_payment_terms = None, data_notes = None\<rparr>"

definition invoice_without_lines :: ExtractedInvoiceData where
  "invoice_without_lines =
     \<lparr>data_invoice_number = None, data_invoice_date = None,
      data_supplier_name = None, data_supplier_tax_number = None,
      data_supplier_address = None, data_customer_name = None,
      data_customer_tax_number = None, data_customer_address = None,
      data_currency = ''TRY'', data_subtotal = 10000, data_total_kdv = 1999,
      data_total_amount = 12000, data_line_items = [],
      data_payment_terms = None, data_notes = None\<rparr>"

text \<open>
  A language model that answers every attempt with the same content, and a parser that
  reads a given record from it.
\<close>

definition answering :: "string \<Rightarrow> nat \<Rightarrow> py_error + string option" where
  "answering content attempt = Inr (Some content)"

definition parsing_to :: "ExtractedInvoiceData \<Rightarrow> string \<Rightarrow> py_error + ExtractedInvoiceData" where
  "parsing_to data content = Inr data"

text \<open>
  A completed invoice of user 7, the same invoice before processing, after a failed
  extraction and after an export, a response of the ledger that assigns the id 8841, and
  a correction of the supplier's name.
\<close>

definition completed_invoice :: Invoice where
  "completed_invoice =
     \<lparr>inv_id = 1, inv_user_id = 7, inv_original_filename = ''fatura.pdf'',
      inv_file_path = ''invoices/7/2024/01/fatura.pdf'', inv_file_size = 52133,
      inv_mime_type = ''application/pdf'', inv_status = ''completed'',
      inv_ocr_text = Some ''FATURA'',
      inv_extracted_data = Some [(''invoice_number'', JStr ''FTR2024001234'')],
      inv_error_message = None, inv_exported_to_parasut = False,
      inv_parasut_invoice_id = JNull, inv_exported_at = None, inv_created_at = 100,
      inv_updated_at = 150, inv_is_manually_corrected = False\<rparr>"

definition ledger_response :: json where
  "ledger_response = JDict [(''data'', JDict [(''id'', JStr ''8841''), (''type'', JStr ''sales_invoices'')])]"





section \<open>Rounding\<close>

lemma floor_rat_numeral [simp]:
  "\<lfloor>numeral a / numeral b :: rat\<rfloor> = numeral a div numeral b"
  by (metis floor_divide_of_int_eq of_int_numeral)

lemma floor_rat_neg_numeral [simp]:
  "\<lfloor>- (numeral a / numeral b :: rat)\<rfloor> = - numeral a div numeral b"
  by (metis floor_divide_of_int_eq of_int_numeral of_int_minus minus_divide_left)

lemma floor_rat_one_div [simp]: "\<lfloor>1 / numeral b :: rat\<rfloor> = 1 div numeral b"
  by (metis floor_divide_of_int_eq of_int_1 of_int_numeral)







text \<open>The rounding of the specification determines its result.\<close>

lemma rounded_half_up_unique:
  assumes "is_rounded_half_up x y" and "is_rounded_half_up x y'"
  shows "y = y'"
proof -
  define m where "m = \<lfloor>y * 100\<rfloor>"
  define m' where "m' = \<lfloor>y' * 100\<rfloor>"
  have g: "of_int \<lfloor>y * 100\<rfloor> = y * 100" "of_int \<lfloor>y' * 100\<rfloor> = y' * 100"
    using assms unfolding is_rounded_half_up_def by blast+
  have y: "y = of_int m / 100" and y': "y' = of_int m' / 100"
    by (simp_all add: m_def m'_def g)
  have near: "\<bar>y - x\<bar> \<le> 1 / 200" "\<bar>y' - x\<bar> \<le> 1 / 200"
    using assms unfolding is_rounded_half_up_def by blast+
  have tie: "\<bar>y - x\<bar> = 1 / 200 \<longrightarrow> x < y" "\<bar>y' - x\<bar> = 1 / 200 \<longrightarrow> x < y'"
    using assms unfolding is_rounded_half_up_def by blast+
  have "\<bar>y * 100 - y' * 100\<bar> \<le> 1"
    using near by linarith
  then have "\<bar>rat_of_int m - rat_of_int m'\<bar> \<le> 1"
    by (simp only: m_def m'_def g)
  then have "rat_of_int \<bar>m - m'\<bar> \<le> 1"
    by (simp only: of_int_abs of_int_diff)
  then have "\<bar>m - m'\<bar> \<le> 1"
    by (simp only: of_int_le_1_iff)
  then consider "m = m'" | "m = m' + 1" | "m' = m + 1" by linarith
  then show ?thesis
  proof cases
    case 1
    then show ?thesis by (simp add: y y')
  next
    case 2
    then have d: "y = y' + 1 / 100" by (simp add: y y' add_divide_distrib)
    then have "\<bar>y' - x\<bar> = 1 / 200" using near by linarith
    then have "x < y'" using tie(2) by blast
    then show ?thesis using d near by linarith
  next
    case 3
    then have d: "y' = y + 1 / 100" by (simp add: y y' add_divide_distrib)
    then have "\<bar>y - x\<bar> = 1 / 200" using near by linarith
    then have "x < y" using tie(1) by blast
    then show ?thesis using d near by linarith
  qed
qed

section \<open>The forward calculation\<close>

lemma calculate_nonneg:
  "0 \<le> subtotal \<Longrightarrow>
   calculate subtotal rate =
     \<lparr>res_is_valid = True, res_subtotal = subtotal,
      res_kdv_amount = quantize_half_up (subtotal * rate / 100),
      res_total = subtotal + quantize_half_up (subtotal * rate / 100),
      res_kdv_rate = rate, res_suggested_values = None, res_error_message = None\<rparr>"
  by (simp add: calculate_def Let_def)



section \<open>The backward calculation after the forward one\<close>








section \<open>The nearest rate of the schedule\<close>










section \<open>Validation and its suggested values\<close>












section \<open>Reconciliation of an extraction result\<close>

text \<open>
  Every pass through the loop of \<^verbatim>\<open>_validate_and_recalculate\<close> ends in the \<^verbatim>\<open>except\<close>
  clause: the loop changes no item and adds nothing to its two sums, which stay 0.
\<close>

lemma recalculate_line_raises: "recalculate_line item = Inl AttributeError"
  by (simp add: recalculate_line_def calculate_kdv_def)

lemma line_loop_skips: "line_loop items s k = (items, s, k)"
  by (induction items) (simp_all add: recalculate_line_raises)

lemma validate_and_recalculate_sums_nothing:
  "data_line_items data \<noteq> [] \<Longrightarrow>
   validate_and_recalculate data =
     data\<lparr>data_subtotal := (if \<bar>data_subtotal data\<bar> > 1 then 0 else data_subtotal data),
          data_total_kdv := (if \<bar>data_total_kdv data\<bar> > 1 then 0 else data_total_kdv data),
          data_total_amount :=
            (if \<bar>data_total_amount data\<bar> > 1 then 0 else data_total_amount data)\<rparr>"
  by (simp add: validate_and_recalculate_def line_loop_skips Let_def)

lemma validate_and_recalculate_line_items:
  "data_line_items (validate_and_recalculate data) = data_line_items data"
  by (cases "data_line_items data = []")
     (simp_all add: validate_and_recalculate_sums_nothing, simp add: validate_and_recalculate_def)

text \<open>
  Claim C1 says that a stated line total differing from \<open>quantity * unit_price\<close> by more
  than 0.01 is overwritten, so that every line total of the output equals
  \<open>quantity * unit_price\<close>. The code does not do so: for the line of 2 units at 10 with
  the stated total 25, \<^verbatim>\<open>extract_invoice_data\<close> returns the line with the total 25, not 20,
  and sets the three totals of the document to 0.
\<close>

theorem reconciliation_keeps_wrong_line_total:
  "extracted_data_valid invoice_with_wrong_line_total \<and>
   map line_amount (data_line_items invoice_with_wrong_line_total) = [20] \<and>
   map item_total (data_line_items invoice_with_wrong_line_total) = [25] \<and>
   map item_total (data_line_items (validate_and_recalculate invoice_with_wrong_line_total)) =
     [25] \<and>
   extract_invoice_data (answering ''response'') (parsing_to invoice_with_wrong_line_total) [70] 2 =
     ([System_prompt_built, User_prompt_built [70], Model_called 0],
      Inr (invoice_with_wrong_line_total
             \<lparr>data_subtotal := 0, data_total_kdv := 0, data_total_amount := 0\<rparr>))"
proof -
  have v: "validate_and_recalculate invoice_with_wrong_line_total =
             invoice_with_wrong_line_total
               \<lparr>data_subtotal := 0, data_total_kdv := 0, data_total_amount := 0\<rparr>"
    by (simp add: validate_and_recalculate_sums_nothing invoice_with_wrong_line_total_def)
  have e: "extract_invoice_data (answering ''response'') (parsing_to invoice_with_wrong_line_total)
             [70] 2 =
           ([System_prompt_built, User_prompt_built [70], Model_called 0],
            Inr (validate_and_recalculate invoice_with_wrong_line_total))"
    by (simp add: extract_invoice_data_def strip_def py_isspace_def upt_rec answering_def
          parsing_to_def)
  show ?thesis
    unfolding e v
    by (simp add: invoice_with_wrong_line_total_def extracted_data_valid_def
          line_item_valid_def line_amount_def)
qed

text \<open>
  Claim C2 says that a returned record with line items has, within 1.00, a subtotal equal
  to the sum of its line totals, a total\_kdv equal to the sum of the tax of its lines and
  a total\_amount equal to their sum. The code does not keep this: the record with one
  line of 10000 at 20 percent and the matching totals 10000, 2000 and 12000 comes back
  with the totals 0, 0 and 0, its line total still 10000.
\<close>

theorem reconciliation_zeroes_consistent_totals:
  "extracted_data_valid consistent_invoice \<and>
   sum_list (map item_total (data_line_items consistent_invoice)) = 10000 \<and>
   sum_list (map line_tax (data_line_items consistent_invoice)) = 2000 \<and>
   validate_and_recalculate consistent_invoice =
     consistent_invoice\<lparr>data_subtotal := 0, data_total_kdv := 0, data_total_amount := 0\<rparr> \<and>
   sum_list (map item_total (data_line_items (validate_and_recalculate consistent_invoice))) =
     10000 \<and>
   sum_list (map line_tax (data_line_items (validate_and_recalculate consistent_invoice))) =
     2000 \<and>
   data_subtotal (validate_and_recalculate consistent_invoice) = 0 \<and>
   data_total_kdv (validate_and_recalculate consistent_invoice) = 0"
proof -
  have v: "validate_and_recalculate consistent_invoice =
     consistent_invoice\<lparr>data_subtotal := 0, data_total_kdv := 0, data_total_amount := 0\<rparr>"
    by (simp add: validate_and_recalculate_sums_nothing consistent_invoice_def)
  show ?thesis
    unfolding v
    by (simp add: consistent_invoice_def extracted_data_valid_def line_item_valid_def
          line_tax_def calculate_nonneg quantize_half_up_def)
qed

text \<open>
  Claim C10. For every record whose list of line items is empty,
  \<^verbatim>\<open>_validate_and_recalculate\<close> returns the record as it is: subtotal, total\_kdv,
  total\_amount and every other field are unchanged.
\<close>

theorem no_line_items_unchanged:
  "data_line_items data = [] \<Longrightarrow> validate_and_recalculate data = data"
  by (simp add: validate_and_recalculate_def)

text \<open>A record without line items whose totals do not add up keeps them.\<close>

theorem no_line_items_unchanged_witness:
  "data_line_items invoice_without_lines = [] \<and>
   validate_and_recalculate invoice_without_lines = invoice_without_lines \<and>
   data_subtotal (validate_and_recalculate invoice_without_lines) = 10000 \<and>
   data_total_kdv (validate_and_recalculate invoice_without_lines) = 1999 \<and>
   data_total_amount (validate_and_recalculate invoice_without_lines) = 12000"
proof -
  have h: "data_line_items invoice_without_lines = []"
    by (simp add: invoice_without_lines_def)
  show ?thesis
    using h no_line_items_unchanged [OF h] by (simp add: invoice_without_lines_def)
qed

section \<open>Extraction from an empty text\<close>

lemma strip_blank:
  assumes "\<forall>c \<in> set s. py_isspace c"
  shows "strip s = []"
proof -
  have blank: "dropWhile py_isspace (rev s) = []"
    using assms by simp
  show ?thesis unfolding strip_def blank by simp
qed

text \<open>
  Claim C8. For every text that is empty or consists of whitespace only,
  \<^verbatim>\<open>extract_invoice_data\<close> raises the ValueError of its first statement: its trace is
  empty, so it has built no prompt and has not called the language model.
\<close>

theorem empty_text_rejected:
  "ocr_text = [] \<or> (\<forall>c \<in> set ocr_text. py_isspace c) \<Longrightarrow>
   extract_invoice_data llm parse ocr_text max_retries = ([], Inl ValueError)"
  by (auto simp: extract_invoice_data_def strip_blank)

text \<open>A text of a space, a tab and a line feed.\<close>

theorem empty_text_rejected_witness:
  "([32, 9, 10] = ([] :: nat list) \<or> (\<forall>c \<in> set [32, 9, 10]. py_isspace c)) \<and>
   extract_invoice_data (answering ''response'') (parsing_to consistent_invoice) [32, 9, 10] 2 =
     ([], Inl ValueError)"
proof -
  have h: "[32, 9, 10] = ([] :: nat list) \<or> (\<forall>c \<in> set [32, 9, 10]. py_isspace c)"
    by (simp add: py_isspace_def)
  show ?thesis using h empty_text_rejected [OF h] by blast
qed

section \<open>Export to the ledger\<close>

text \<open>
  \<^verbatim>\<open>export_invoice\<close> returns the id of the ledger under the key \<^verbatim>\<open>parasut_invoice_id\<close>;
  the handler reads the key \<^verbatim>\<open>parasut_id\<close>, which no result has. Every export that
  succeeds therefore stores the status exported with no ledger id.
\<close>

lemma export_invoice_keys:
  assumes "export_invoice request invoice = Inr result"
  shows "dict_get result ''parasut_id'' = JNull" and "dict_get result ''parasut_url'' = JNull"
  using assms
  by (auto simp: export_invoice_def dict_get_def split: if_splits sum.splits)

lemma export_to_parasut_success:
  assumes "export_to_parasut request now found = (Inr response, stored)"
  shows "\<exists>invoice. found = Some invoice \<and> inv_status invoice = ''completed'' \<and>
           stored = Some (invoice\<lparr>inv_status := ''exported'', inv_parasut_invoice_id := JNull,
                                   inv_exported_at := Some now, inv_updated_at := now\<rparr>)"
  using assms
  by (auto simp: export_to_parasut_def Let_def export_invoice_keys
           split: option.splits if_splits sum.splits)

text \<open>
  Claim C3 says that an export that succeeds sets the status to exported, the
  \<^verbatim>\<open>parasut_invoice_id\<close> to the id assigned by the ledger and \<^verbatim>\<open>exported_at\<close>. The code
  does not store the id: the ledger assigns 8841 to the completed invoice,
  \<^verbatim>\<open>export_invoice\<close> returns it, and the handler stores the status exported with
  \<^verbatim>\<open>parasut_invoice_id\<close> null.
\<close>

theorem export_loses_ledger_id:
  "export_invoice (Inr ledger_response) completed_invoice =
     Inr [(''success'', JBool True), (''parasut_invoice_id'', JStr ''8841''),
          (''message'', JStr ''Invoice successfully exported to Parasut''),
          (''data'', ledger_response)] \<and>
   export_to_parasut (Inr ledger_response) 200 (Some completed_invoice) =
     (Inr [(''success'', JBool True),
           (''message'', JStr ''Fatura basariyla Parasut'e aktarildi''),
           (''parasut_id'', JNull), (''parasut_url'', JNull), (''exported_at'', JNum 200)],
      Some (completed_invoice
              \<lparr>inv_status := ''exported'', inv_parasut_invoice_id := JNull,
               inv_exported_at := Some 200, inv_updated_at := 200\<rparr>))"
proof -
  have e: "export_invoice (Inr ledger_response) completed_invoice =
     Inr [(''success'', JBool True), (''parasut_invoice_id'', JStr ''8841''),
          (''message'', JStr ''Invoice successfully exported to Parasut''),
          (''data'', ledger_response)]"
    by (simp add: export_invoice_def no_extracted_data_def completed_invoice_def
          ledger_response_def json_get_def)
  show ?thesis
    unfolding e
    by (simp add: export_to_parasut_def e no_extracted_data_def dict_get_def Let_def)
       (simp add: completed_invoice_def)
qed

section \<open>Correction of an invoice\<close>






end
